theory Spec2Isabelle
  imports Main "HOL-Library.AList"
begin

section \<open>Object node mappings (llama\_index/objects/base\_node\_mapping.py)\<close>

text \<open>
  A shallow embedding of \<^verbatim>\<open>BaseObjectNodeMapping\<close> and \<^verbatim>\<open>SimpleObjectNodeMapping\<close>.

  \<^item> Objects (\<^verbatim>\<open>Any\<close>) are values of a type variable \<open>'o\<close>; the builtins \<^verbatim>\<open>str\<close> and
    \<^verbatim>\<open>hash\<close> are parameters \<open>str :: 'o \<Rightarrow> string\<close> and \<open>hash :: string \<Rightarrow> int\<close> of every
    operation that calls them. Objects are immutable values here, so an object's string
    form never changes after it was inserted.
  \<^item> The dictionary \<^verbatim>\<open>self._objs\<close> is an association list in insertion order, read with
    \<open>map_of\<close> and written with \<open>AList.update\<close> (an existing key keeps its place and gets
    the new value, a new key goes to the end), as a Python \<^verbatim>\<open>dict\<close> does.
  \<^item> Every method takes \<open>self\<close> and returns its result together with \<open>self\<close> afterwards.
  \<^item> Exceptions are values of \<open>exn\<close>; a method that may raise returns \<open>exn + 'a\<close>.
  \<^item> The calls into Python's library and the operating system (\<^verbatim>\<open>os.path.exists\<close>,
    \<^verbatim>\<open>os.makedirs\<close>, \<^verbatim>\<open>open\<close>, \<^verbatim>\<open>pickle.dump\<close>, \<^verbatim>\<open>pickle.load\<close>) are parameters of
    \<open>persist\<close> and \<open>from_persist_dir\<close>; each of them may raise.
  \<^item> The overridable hook \<^verbatim>\<open>validate_object\<close> is a parameter \<open>vo\<close> of the operations that call
    it: \<open>vo obj = None\<close> when it returns, \<open>vo obj = Some e\<close> when it raises \<open>e\<close>. The
    definition \<open>validate_object\<close> is the body the base class gives it, which
    \<^verbatim>\<open>SimpleObjectNodeMapping\<close> inherits.
  \<^item> Names that start with an underscore in the source end with a prime here
    (\<^verbatim>\<open>_add_object\<close> is \<open>add_object'\<close>, \<^verbatim>\<open>_from_node\<close> is \<open>from_node'\<close>), and \<^verbatim>\<open>__init__\<close>
    is \<open>init\<close>.
\<close>

subsection \<open>Exceptions\<close>

datatype exn =
    KeyError int
  | TypeError string
  | EOFError string
  | OSError string
  | FileNotFoundError string
  | FileExistsError string
  | IsADirectoryError string
  | NotADirectoryError string
  | PermissionError string
  | PickleError string
  | PicklingError string
  | UnpicklingError string
  | ValueError string "exn option"

text \<open>
  \<^verbatim>\<open>except pickle.PickleError\<close> catches \<^verbatim>\<open>PickleError\<close> and its two subclasses
  \<^verbatim>\<open>PicklingError\<close> and \<^verbatim>\<open>UnpicklingError\<close>, and nothing else of \<open>exn\<close>.
  \<open>ValueError msg (Some err)\<close> is \<^verbatim>\<open>raise ValueError(msg) from err\<close>.
\<close>

fun isinstance_PickleError :: "exn \<Rightarrow> bool" where
  "isinstance_PickleError (PickleError _) = True"
| "isinstance_PickleError (PicklingError _) = True"
| "isinstance_PickleError (UnpicklingError _) = True"
| "isinstance_PickleError _ = False"

text \<open>The exceptions \<^verbatim>\<open>open\<close> and \<^verbatim>\<open>os.makedirs\<close> raise are \<^verbatim>\<open>OSError\<close> and its subclasses.\<close>

fun isinstance_OSError :: "exn \<Rightarrow> bool" where
  "isinstance_OSError (OSError _) = True"
| "isinstance_OSError (FileNotFoundError _) = True"
| "isinstance_OSError (FileExistsError _) = True"
| "isinstance_OSError (IsADirectoryError _) = True"
| "isinstance_OSError (NotADirectoryError _) = True"
| "isinstance_OSError (PermissionError _) = True"
| "isinstance_OSError _ = False"

subsection \<open>Text nodes\<close>

record text_node =
  node_text :: string
  metadata :: "(string \<times> string) list"

text \<open>
  Modelled from the spec: \<^verbatim>\<open>llama_index.schema.TextNode\<close> and its accessor
  \<^verbatim>\<open>get_content(metadata_mode=MetadataMode.NONE)\<close> are not in the source file. The spec
  describes the node as a string payload plus metadata, built from a \<^verbatim>\<open>text\<close> field, and
  the accessor with mode "none" as returning the text with the metadata stripped.
\<close>

definition TextNode :: "string \<Rightarrow> text_node" where
  "TextNode t = \<lparr>node_text = t, metadata = []\<rparr>"

definition get_content_NONE :: "text_node \<Rightarrow> string" where
  "get_content_NONE node = node_text node"

subsection \<open>BaseObjectNodeMapping\<close>

type_synonym 'o hook = "'o \<Rightarrow> exn option"

definition validate_object :: "'o hook" where
  "validate_object obj = None"

text \<open>
  \<^verbatim>\<open>add_object\<close> and \<^verbatim>\<open>from_node\<close> of the base class call the hook and the abstract
  primitive of the subclass, here the parameters \<open>prim_add\<close> and \<open>prim_from\<close>.
\<close>

definition base_add_object ::
  "'o hook \<Rightarrow> ('s \<Rightarrow> 'o \<Rightarrow> (exn + unit) \<times> 's) \<Rightarrow> 's \<Rightarrow> 'o \<Rightarrow> (exn + unit) \<times> 's" where
  "base_add_object vo prim_add self obj =
     (case vo obj of
        Some e \<Rightarrow> (Inl e, self)
      | None \<Rightarrow> prim_add self obj)"

definition base_from_node ::
  "'o hook \<Rightarrow> ('s \<Rightarrow> text_node \<Rightarrow> (exn + 'o) \<times> 's) \<Rightarrow> 's \<Rightarrow> text_node \<Rightarrow> (exn + 'o) \<times> 's" where
  "base_from_node vo prim_from self node =
     (case prim_from self node of
        (Inl e, self') \<Rightarrow> (Inl e, self')
      | (Inr obj, self') \<Rightarrow>
          (case vo obj of
             Some e \<Rightarrow> (Inl e, self')
           | None \<Rightarrow> (Inr obj, self')))"

subsection \<open>SimpleObjectNodeMapping\<close>

record 'o simple_object_node_mapping =
  objs :: "(int \<times> 'o) list"

text \<open>The loop \<^verbatim>\<open>for obj in objs: self.validate_object(obj)\<close>: the first raise ends it.\<close>

fun validate_each :: "'o hook \<Rightarrow> 'o list \<Rightarrow> exn option" where
  "validate_each vo [] = None"
| "validate_each vo (obj # rest) =
     (case vo obj of Some e \<Rightarrow> Some e | None \<Rightarrow> validate_each vo rest)"

text \<open>The comprehension \<^verbatim>\<open>{hash(str(obj)): obj for obj in objs}\<close>, filled left to right.\<close>

definition dict_comp :: "('o \<Rightarrow> string) \<Rightarrow> (string \<Rightarrow> int) \<Rightarrow> 'o list \<Rightarrow> (int \<times> 'o) list" where
  "dict_comp str hash os = foldl (\<lambda>d obj. AList.update (hash (str obj)) obj d) [] os"

definition init ::
  "'o hook \<Rightarrow> ('o \<Rightarrow> string) \<Rightarrow> (string \<Rightarrow> int) \<Rightarrow> 'o list option
     \<Rightarrow> exn + 'o simple_object_node_mapping" where
  "init vo str hash objs_arg =
     (let os = (case objs_arg of None \<Rightarrow> [] | Some l \<Rightarrow> l) in
      case validate_each vo os of
        Some e \<Rightarrow> Inl e
      | None \<Rightarrow> Inr \<lparr>objs = dict_comp str hash os\<rparr>)"

definition from_objects ::
  "'o hook \<Rightarrow> ('o \<Rightarrow> string) \<Rightarrow> (string \<Rightarrow> int) \<Rightarrow> 'o list
     \<Rightarrow> exn + 'o simple_object_node_mapping" where
  "from_objects vo str hash os = init vo str hash (Some os)"

definition obj_node_mapping :: "'o simple_object_node_mapping \<Rightarrow> (int \<times> 'o) list" where
  "obj_node_mapping self = objs self"

definition obj_node_mapping_set ::
  "'o simple_object_node_mapping \<Rightarrow> (int \<times> 'o) list \<Rightarrow> 'o simple_object_node_mapping" where
  "obj_node_mapping_set self mapping = self\<lparr>objs := mapping\<rparr>"

definition add_object' ::
  "('o \<Rightarrow> string) \<Rightarrow> (string \<Rightarrow> int) \<Rightarrow> 'o simple_object_node_mapping \<Rightarrow> 'o
     \<Rightarrow> (exn + unit) \<times> 'o simple_object_node_mapping" where
  "add_object' str hash self obj =
     (Inr (), self\<lparr>objs := AList.update (hash (str obj)) obj (objs self)\<rparr>)"

definition add_object ::
  "'o hook \<Rightarrow> ('o \<Rightarrow> string) \<Rightarrow> (string \<Rightarrow> int) \<Rightarrow> 'o simple_object_node_mapping \<Rightarrow> 'o
     \<Rightarrow> (exn + unit) \<times> 'o simple_object_node_mapping" where
  "add_object vo str hash = base_add_object vo (add_object' str hash)"

definition to_node ::
  "('o \<Rightarrow> string) \<Rightarrow> 'o simple_object_node_mapping \<Rightarrow> 'o
     \<Rightarrow> text_node \<times> 'o simple_object_node_mapping" where
  "to_node str self obj = (TextNode (str obj), self)"

definition from_node' ::
  "(string \<Rightarrow> int) \<Rightarrow> 'o simple_object_node_mapping \<Rightarrow> text_node
     \<Rightarrow> (exn + 'o) \<times> 'o simple_object_node_mapping" where
  "from_node' hash self node =
     (let key = hash (get_content_NONE node) in
      case map_of (objs self) key of
        None \<Rightarrow> (Inl (KeyError key), self)
      | Some obj \<Rightarrow> (Inr obj, self))"

definition from_node ::
  "'o hook \<Rightarrow> (string \<Rightarrow> int) \<Rightarrow> 'o simple_object_node_mapping \<Rightarrow> text_node
     \<Rightarrow> (exn + 'o) \<times> 'o simple_object_node_mapping" where
  "from_node vo hash = base_from_node vo (from_node' hash)"

subsection \<open>Persistence\<close>

text \<open>
  The file system is a state of type \<open>'w\<close>, and the calls the source makes on it are the
  fields of a record: whether a path exists, \<^verbatim>\<open>os.makedirs\<close>, \<^verbatim>\<open>open(path, "wb")\<close> (which
  creates or truncates the file), leaving the \<^verbatim>\<open>with\<close> block of a file opened for writing
  (the file then holds what was written inside the block), and \<^verbatim>\<open>open(path, "rb")\<close>
  followed by reading the file. A call that may raise gives the exception it raised, if
  any, and the file system it left. The content type \<open>'b\<close> is whatever the serialisation
  format writes.
\<close>

record ('w, 'b) os_calls =
  os_path_exists :: "'w \<Rightarrow> string \<Rightarrow> bool"
  os_makedirs :: "'w \<Rightarrow> string \<Rightarrow> exn option \<times> 'w"
  open_wb :: "'w \<Rightarrow> string \<Rightarrow> exn option \<times> 'w"
  close_wb :: "'w \<Rightarrow> string \<Rightarrow> 'b \<Rightarrow> 'w"
  open_rb :: "'w \<Rightarrow> string \<Rightarrow> exn + 'b"

text \<open>
  Modelled from the spec: \<^verbatim>\<open>llama_index.utils.concat_dirs\<close> is not in the source file. The
  spec asks for a directory/filename concatenation rule that handles directory paths with
  or without a trailing separator and produces exactly one separator between directory
  and filename.
\<close>

definition concat_dirs :: "string \<Rightarrow> string \<Rightarrow> string" where
  "concat_dirs dir1 dir2 =
     (if dir1 \<noteq> [] \<and> last dir1 = CHR ''/'' then dir1 @ dir2 else dir1 @ ''/'' @ dir2)"

definition DEFAULT_PERSIST_FNAME :: string where
  "DEFAULT_PERSIST_FNAME = ''object_node_mapping.pickle''"

text \<open>
  The handler \<^verbatim>\<open>except pickle.PickleError as err: raise ValueError(msg) from err\<close>: an
  exception of another class leaves the \<^verbatim>\<open>try\<close> statement as it is.
\<close>

definition except_PickleError :: "string \<Rightarrow> exn \<Rightarrow> exn" where
  "except_PickleError msg err =
     (if isinstance_PickleError err then ValueError msg (Some err) else err)"

text \<open>
  \<^verbatim>\<open>pickle.dump\<close> and \<^verbatim>\<open>pickle.load\<close> belong to the Python library and are parameters:
  \<open>pickle_dump table\<close> is what the call wrote to the file, with the exception it raised if
  it raised one; \<open>pickle_load content\<close> is the table read back, or the exception raised.
\<close>

definition persist ::
  "('w, 'b) os_calls \<Rightarrow> ((int \<times> 'o) list \<Rightarrow> 'b \<times> exn option)
     \<Rightarrow> 'o simple_object_node_mapping \<Rightarrow> 'w \<Rightarrow> string \<Rightarrow> string
     \<Rightarrow> (exn + unit) \<times> 'o simple_object_node_mapping \<times> 'w" where
  "persist os pickle_dump self w persist_dir obj_node_mapping_fname =
     (case (if \<not> os_path_exists os w persist_dir then os_makedirs os w persist_dir
            else (None, w)) of
        (Some err, w1) \<Rightarrow> (Inl err, self, w1)
      | (None, w1) \<Rightarrow>
          (let obj_node_mapping_path = concat_dirs persist_dir obj_node_mapping_fname
           in case open_wb os w1 obj_node_mapping_path of
                (Some err, w2) \<Rightarrow>
                  (Inl (except_PickleError ''Objs is not pickleable'' err), self, w2)
              | (None, w2) \<Rightarrow>
                  (case pickle_dump (objs self) of
                     (written, None) \<Rightarrow>
                       (Inr (), self, close_wb os w2 obj_node_mapping_path written)
                   | (written, Some err) \<Rightarrow>
                       (Inl (except_PickleError ''Objs is not pickleable'' err), self,
                        close_wb os w2 obj_node_mapping_path written))))"

definition from_persist_dir ::
  "('w, 'b) os_calls \<Rightarrow> 'o hook \<Rightarrow> ('o \<Rightarrow> string) \<Rightarrow> (string \<Rightarrow> int)
     \<Rightarrow> ('b \<Rightarrow> exn + (int \<times> 'o) list) \<Rightarrow> 'w \<Rightarrow> string \<Rightarrow> string
     \<Rightarrow> exn + 'o simple_object_node_mapping" where
  "from_persist_dir os vo str hash pickle_load w persist_dir obj_node_mapping_fname =
     (let obj_node_mapping_path = concat_dirs persist_dir obj_node_mapping_fname
      in case open_rb os w obj_node_mapping_path of
           Inl err \<Rightarrow> Inl (except_PickleError ''Objs cannot be loaded.'' err)
         | Inr content \<Rightarrow>
             (case pickle_load content of
                Inl err \<Rightarrow> Inl (except_PickleError ''Objs cannot be loaded.'' err)
              | Inr loaded \<Rightarrow>
                  (case init vo str hash None of
                     Inl e \<Rightarrow> Inl e
                   | Inr simple_object_node_mapping \<Rightarrow>
                       Inr (obj_node_mapping_set simple_object_node_mapping loaded))))"

subsection \<open>Mappings built through the constructor and add\_object\<close>

text \<open>
  \<open>registered vo str hash reg self\<close>: the mapping \<open>self\<close> was made by the constructor and
  changed by calls of \<open>add_object\<close> only, and \<open>reg\<close> lists the objects it accepted, in
  the order of their registration. A call that raised counts as a step too.
\<close>

inductive registered ::
  "'o hook \<Rightarrow> ('o \<Rightarrow> string) \<Rightarrow> (string \<Rightarrow> int) \<Rightarrow> 'o list \<Rightarrow> 'o simple_object_node_mapping \<Rightarrow> bool"
  for vo :: "'o hook" and str :: "'o \<Rightarrow> string" and hash :: "string \<Rightarrow> int" where
  constructed:
    "init vo str hash objs_arg = Inr self
       \<Longrightarrow> registered vo str hash (case objs_arg of None \<Rightarrow> [] | Some l \<Rightarrow> l) self"
| added:
    "registered vo str hash reg self \<Longrightarrow> add_object vo str hash self obj = (Inr (), self')
       \<Longrightarrow> registered vo str hash (reg @ [obj]) self'"
| rejected:
    "registered vo str hash reg self \<Longrightarrow> add_object vo str hash self obj = (Inl e, self')
       \<Longrightarrow> registered vo str hash reg self'"

text \<open>The invariant of the table: every entry sits under the hash of its object's string form.\<close>

definition key_invariant ::
  "('o \<Rightarrow> string) \<Rightarrow> (string \<Rightarrow> int) \<Rightarrow> 'o simple_object_node_mapping \<Rightarrow> bool" where
  "key_invariant str hash self = list_all (\<lambda>(key, obj). key = hash (str obj)) (objs self)"

subsection \<open>A small universe of Python values for concrete runs\<close>

text \<open>
  Five kinds of Python objects with the string forms \<^verbatim>\<open>str\<close> gives them: \<^verbatim>\<open>None\<close>, the
  booleans, strings (their own string form), a lambda and an open binary file. The
  string \<^verbatim>\<open>"None"\<close> and the value \<^verbatim>\<open>None\<close> are distinct objects with one string form.
\<close>

datatype pyobj = PyNone | PyBool bool | PyStr string | PyLambda | PyFile string

fun py_str :: "pyobj \<Rightarrow> string" where
  "py_str PyNone = ''None''"
| "py_str (PyBool b) = (if b then ''True'' else ''False'')"
| "py_str (PyStr s) = s"
| "py_str PyLambda = ''<function <lambda> at 0x7f3a5c1d0e50>''"
| "py_str (PyFile name) = ''<_io.BufferedReader name='' @ name @ ''>''"

text \<open>A deterministic string hash (the polynomial one, modulo \<open>2^61 - 1\<close>) to run with.\<close>

definition py_hash :: "string \<Rightarrow> int" where
  "py_hash s = foldl (\<lambda>h c. (31 * h + of_char c) mod 2305843009213693951) 7 s"


text \<open>A hook that rejects lambdas, as an overriding \<^verbatim>\<open>validate_object\<close> could.\<close>

definition no_lambdas :: "pyobj hook" where
  "no_lambdas obj = (if obj = PyLambda then Some (ValueError ''lambdas are not accepted'' None) else None)"

text \<open>
  What CPython's pickle does with these objects: a lambda raises \<^verbatim>\<open>PicklingError\<close>, an
  open file raises \<^verbatim>\<open>TypeError\<close> (cannot pickle '\_io.BufferedReader' object), the others
  are written. When an object of the table raises, nothing has reached the file. The
  content of a file is the list of entries written.
\<close>

fun py_reduce :: "pyobj \<Rightarrow> exn option" where
  "py_reduce PyLambda = Some (PicklingError ''Cannot pickle <function <lambda>>: attribute lookup failed'')"
| "py_reduce (PyFile name) = Some (TypeError ''cannot pickle _io.BufferedReader object'')"
| "py_reduce _ = None"

fun py_first_raise :: "(int \<times> pyobj) list \<Rightarrow> exn option" where
  "py_first_raise [] = None"
| "py_first_raise ((key, obj) # rest) =
     (case py_reduce obj of Some err \<Rightarrow> Some err | None \<Rightarrow> py_first_raise rest)"

definition py_pickle_dump :: "(int \<times> pyobj) list \<Rightarrow> (int \<times> pyobj) list \<times> exn option" where
  "py_pickle_dump table =
     (case py_first_raise table of Some err \<Rightarrow> ([], Some err) | None \<Rightarrow> (table, None))"

definition py_pickle_load :: "(int \<times> pyobj) list \<Rightarrow> exn + (int \<times> pyobj) list" where
  "py_pickle_load content = Inr content"

text \<open>Reading a file that does not hold a pickle: \<^verbatim>\<open>pickle.load\<close> raises \<^verbatim>\<open>UnpicklingError\<close>.\<close>

definition corrupt_load :: "(int \<times> pyobj) list \<Rightarrow> exn + (int \<times> pyobj) list" where
  "corrupt_load content = Inl (UnpicklingError ''invalid load key'')"

subsection \<open>A file system in memory for concrete runs\<close>

text \<open>
  Paths are split at \<^verbatim>\<open>/\<close>; empty components and \<^verbatim>\<open>.\<close> are dropped, so the current
  directory is the root, which always exists. An entry is a directory, or a file with a
  flag (whether this process may open it) and its content. A file needs its parent
  directory; \<^verbatim>\<open>os.makedirs\<close> makes the missing ancestors too. The empty path names
  nothing.
\<close>

datatype 'b entry = Dir | File bool 'b

type_synonym mem_fs = "string list \<rightharpoonup> (int \<times> pyobj) list entry"

fun split_path :: "string \<Rightarrow> string \<Rightarrow> string list" where
  "split_path cur [] = [cur]"
| "split_path cur (c # cs) =
     (if c = CHR ''/'' then cur # split_path [] cs else split_path (cur @ [c]) cs)"

definition components :: "string \<Rightarrow> string list" where
  "components p = filter (\<lambda>name. name \<noteq> [] \<and> name \<noteq> ''.'') (split_path [] p)"

definition mem_lookup :: "mem_fs \<Rightarrow> string list \<Rightarrow> (int \<times> pyobj) list entry option" where
  "mem_lookup fs names = (if names = [] then Some Dir else fs names)"

definition mem_exists :: "mem_fs \<Rightarrow> string \<Rightarrow> bool" where
  "mem_exists fs p = (p \<noteq> [] \<and> mem_lookup fs (components p) \<noteq> None)"

fun mkdirs :: "string \<Rightarrow> mem_fs \<Rightarrow> string list \<Rightarrow> string list \<Rightarrow> exn option \<times> mem_fs" where
  "mkdirs p fs made [] = (Some (FileExistsError p), fs)"
| "mkdirs p fs made (name # rest) =
     (case mem_lookup fs (made @ [name]) of
        None \<Rightarrow>
          (if rest = [] then (None, fs(made @ [name] \<mapsto> Dir))
           else mkdirs p (fs(made @ [name] \<mapsto> Dir)) (made @ [name]) rest)
      | Some Dir \<Rightarrow>
          (if rest = [] then (Some (FileExistsError p), fs)
           else mkdirs p fs (made @ [name]) rest)
      | Some (File ok content) \<Rightarrow>
          (Some (if rest = [] then FileExistsError p else NotADirectoryError p), fs))"

definition mem_makedirs :: "mem_fs \<Rightarrow> string \<Rightarrow> exn option \<times> mem_fs" where
  "mem_makedirs fs p =
     (if p = [] then (Some (FileNotFoundError p), fs) else mkdirs p fs [] (components p))"

definition mem_open_wb :: "mem_fs \<Rightarrow> string \<Rightarrow> exn option \<times> mem_fs" where
  "mem_open_wb fs p =
     (let names = components p in
      if p = [] then (Some (FileNotFoundError p), fs)
      else if names = [] then (Some (IsADirectoryError p), fs)
      else case mem_lookup fs (butlast names) of
             None \<Rightarrow> (Some (FileNotFoundError p), fs)
           | Some (File ok content) \<Rightarrow> (Some (NotADirectoryError p), fs)
           | Some Dir \<Rightarrow>
               (case fs names of
                  None \<Rightarrow> (None, fs(names \<mapsto> File True []))
                | Some Dir \<Rightarrow> (Some (IsADirectoryError p), fs)
                | Some (File ok content) \<Rightarrow>
                    if ok then (None, fs(names \<mapsto> File True []))
                    else (Some (PermissionError p), fs)))"

definition mem_close_wb :: "mem_fs \<Rightarrow> string \<Rightarrow> (int \<times> pyobj) list \<Rightarrow> mem_fs" where
  "mem_close_wb fs p written = fs(components p \<mapsto> File True written)"

definition mem_open_rb :: "mem_fs \<Rightarrow> string \<Rightarrow> exn + (int \<times> pyobj) list" where
  "mem_open_rb fs p =
     (let names = components p in
      if p = [] then Inl (FileNotFoundError p)
      else case mem_lookup fs names of
             None \<Rightarrow> Inl (FileNotFoundError p)
           | Some Dir \<Rightarrow> Inl (IsADirectoryError p)
           | Some (File ok content) \<Rightarrow> if ok then Inr content else Inl (PermissionError p))"

definition mem_os :: "(mem_fs, (int \<times> pyobj) list) os_calls" where
  "mem_os = \<lparr>os_path_exists = mem_exists, os_makedirs = mem_makedirs, open_wb = mem_open_wb,
             close_wb = mem_close_wb, open_rb = mem_open_rb\<rparr>"

subsection \<open>Facts about the table\<close>

lemma validate_each_None: "validate_each vo os = None \<longleftrightarrow> (\<forall>obj \<in> set os. vo obj = None)"
  by (induction os) (auto split: option.splits)

lemma dict_comp_snoc:
  "dict_comp str hash (os @ [obj]) = AList.update (hash (str obj)) obj (dict_comp str hash os)"
  by (simp add: dict_comp_def)

lemma dict_comp_Nil: "dict_comp str hash [] = []"
  by (simp add: dict_comp_def)

lemma registered_objs:
  "registered vo str hash reg self \<Longrightarrow> objs self = dict_comp str hash reg"
proof (induction rule: registered.induct)
  case (constructed objs_arg self)
  then show ?case by (auto simp: init_def Let_def split: option.splits)
next
  case (added reg self obj self')
  then show ?case
    by (auto simp: add_object_def base_add_object_def add_object'_def dict_comp_snoc split: option.splits)
next
  case (rejected reg self obj e self')
  then show ?case
    by (auto simp: add_object_def base_add_object_def add_object'_def split: option.splits)
qed

lemma registered_valid:
  "registered vo str hash reg self \<Longrightarrow> obj \<in> set reg \<Longrightarrow> vo obj = None"
proof (induction rule: registered.induct)
  case (constructed objs_arg self)
  then show ?case by (auto simp: init_def Let_def validate_each_None split: option.splits)
next
  case (added reg self obj' self')
  then show ?case
    by (auto simp: add_object_def base_add_object_def add_object'_def split: option.splits)
next
  case (rejected reg self obj e self')
  then show ?case by simp
qed

lemma dict_comp_skip:
  "\<forall>z \<in> set zs. hash (str z) \<noteq> k \<Longrightarrow>
     map_of (dict_comp str hash (xs @ zs)) k = map_of (dict_comp str hash xs) k"
proof (induction zs rule: rev_induct)
  case Nil
  then show ?case by simp
next
  case (snoc z zs)
  have "dict_comp str hash (xs @ zs @ [z]) = AList.update (hash (str z)) z (dict_comp str hash (xs @ zs))"
    using dict_comp_snoc[of str hash "xs @ zs" z] by simp
  with snoc show ?case by (simp add: update_conv')
qed

lemma dict_comp_last_wins:
  assumes "\<forall>z \<in> set zs. hash (str z) \<noteq> hash (str b)"
  shows "map_of (dict_comp str hash (xs @ b # zs)) (hash (str b)) = Some b"
proof -
  have "map_of (dict_comp str hash ((xs @ [b]) @ zs)) (hash (str b))
          = map_of (dict_comp str hash (xs @ [b])) (hash (str b))"
    using assms by (rule dict_comp_skip)
  then show ?thesis by (simp add: dict_comp_snoc update_conv')
qed

lemma update_entries:
  "(k', v') \<in> set (AList.update k v al) \<Longrightarrow> (k', v') = (k, v) \<or> (k', v') \<in> set al"
  by (induction al) (auto split: if_splits)

lemma list_all_update:
  "list_all P al \<Longrightarrow> P (k, v) \<Longrightarrow> list_all P (AList.update k v al)"
  by (induction al) auto

lemma dict_comp_entries:
  "(k, obj) \<in> set (dict_comp str hash os) \<Longrightarrow> k = hash (str obj) \<and> obj \<in> set os"
proof (induction os arbitrary: k obj rule: rev_induct)
  case Nil
  then show ?case by (simp add: dict_comp_Nil)
next
  case (snoc x xs)
  from snoc.prems have "(k, obj) = (hash (str x), x) \<or> (k, obj) \<in> set (dict_comp str hash xs)"
    using update_entries[of k obj "hash (str x)" x "dict_comp str hash xs"]
    by (simp add: dict_comp_snoc)
  with snoc.IH show ?case by auto
qed

lemma init_key_invariant:
  "init vo str hash objs_arg = Inr self \<Longrightarrow> key_invariant str hash self"
  by (auto simp: init_def Let_def key_invariant_def list_all_iff dest: dict_comp_entries split: option.splits)

lemma add_object_key_invariant:
  "key_invariant str hash self \<Longrightarrow> key_invariant str hash (snd (add_object vo str hash self obj))"
  by (auto simp: add_object_def base_add_object_def add_object'_def key_invariant_def
      intro: list_all_update split: option.splits)

lemma from_node_hit:
  "map_of (objs self) (hash (str a)) = Some b \<Longrightarrow> vo b = None \<Longrightarrow>
     from_node vo hash self (fst (to_node str self a)) = (Inr b, self)"
  by (simp add: from_node_def base_from_node_def from_node'_def to_node_def TextNode_def
      get_content_NONE_def)

lemma OSError_not_PickleError: "isinstance_OSError err \<Longrightarrow> \<not> isinstance_PickleError err"
  by (cases err) simp_all



lemmas mem_os_simps =
  mem_os_def mem_exists_def mem_makedirs_def mem_open_wb_def mem_close_wb_def mem_open_rb_def
  mem_lookup_def components_def concat_dirs_def DEFAULT_PERSIST_FNAME_def


lemma py_hash_values:
  "py_hash ''None'' = 8898527" "py_hash ''hello'' = 299566379" "py_hash ''True'' = 9080373"
  by (simp_all add: py_hash_def)

subsection \<open>Atomicity of a rejected add\<close>

text \<open>
  C9. If the validation hook raises on an object, \<open>add_object\<close> raises the same exception
  and returns the mapping it was given: the hook runs before the insertion primitive, so
  the table is untouched.
\<close>

theorem add_object_rejected_unchanged:
  "vo obj = Some e \<Longrightarrow> add_object vo str hash self obj = (Inl e, self)"
  by (simp add: add_object_def base_add_object_def)

theorem add_object_rejected_unchanged_witness:
  "add_object no_lambdas py_str py_hash \<lparr>objs = [(py_hash ''None'', PyNone)]\<rparr> PyLambda
     = (Inl (ValueError ''lambdas are not accepted'' None), \<lparr>objs = [(py_hash ''None'', PyNone)]\<rparr>)"
  using add_object_rejected_unchanged[of no_lambdas PyLambda "ValueError ''lambdas are not accepted'' None"
      py_str py_hash "\<lparr>objs = [(py_hash ''None'', PyNone)]\<rparr>"]
  by (simp add: no_lambdas_def)

subsection \<open>The key invariant\<close>

text \<open>
  C7. Every entry of the table of a mapping built by the constructor and changed by
  \<open>add_object\<close> only has the key \<open>hash (str obj)\<close> of its object \<open>obj\<close>: the constructor
  establishes the invariant, every call of \<open>add_object\<close> (accepted or rejected) preserves
  it, and so every mapping reached this way has it. Objects are immutable in this
  model, so the key of an entry is the one computed at its insertion.
\<close>

theorem table_key_invariant:
  "(init vo str hash objs_arg = Inr self0 \<longrightarrow> key_invariant str hash self0) \<and>
   (key_invariant str hash self \<longrightarrow> key_invariant str hash (snd (add_object vo str hash self obj))) \<and>
   (registered vo str hash reg self' \<longrightarrow> key_invariant str hash self')"
proof (intro conjI impI)
  assume "registered vo str hash reg self'"
  then show "key_invariant str hash self'"
  proof (induction rule: registered.induct)
    case (constructed objs_arg self)
    then show ?case by (rule init_key_invariant)
  next
    case (added reg self obj self')
    from add_object_key_invariant[OF added.IH, of vo obj] added.hyps(2) show ?case by simp
  next
    case (rejected reg self obj e self')
    from add_object_key_invariant[OF rejected.IH, of vo obj] rejected.hyps(2) show ?case by simp
  qed
qed (simp_all add: init_key_invariant add_object_key_invariant)

theorem table_key_invariant_witness:
  "key_invariant py_str py_hash \<lparr>objs = [(8898527, PyNone)]\<rparr> \<and>
   key_invariant py_str py_hash
     (snd (add_object validate_object py_str py_hash \<lparr>objs = [(8898527, PyNone)]\<rparr> (PyStr ''hello'')))"
proof -
  have built: "init validate_object py_str py_hash (Some [PyNone]) = Inr \<lparr>objs = [(8898527, PyNone)]\<rparr>"
    by (simp add: init_def validate_object_def dict_comp_def py_hash_values)
  have reg: "registered validate_object py_str py_hash [PyNone] \<lparr>objs = [(8898527, PyNone)]\<rparr>"
    using registered.constructed[OF built] by simp
  note inv = table_key_invariant[of validate_object py_str py_hash "Some [PyNone]"
      "\<lparr>objs = [(8898527, PyNone)]\<rparr>" "\<lparr>objs = [(8898527, PyNone)]\<rparr>" "PyStr ''hello''"
      "[PyNone]" "\<lparr>objs = [(8898527, PyNone)]\<rparr>"]
  from inv built reg show ?thesis by blast
qed

subsection \<open>Round trip through a text node\<close>

text \<open>
  C1. For an object that was registered, through the constructor or \<open>add_object\<close>, and
  whose hash key no other registered object shares, \<open>from_node\<close> applied to the node
  \<open>to_node\<close> makes of it returns that object.
\<close>

theorem from_node_to_node_roundtrip:
  assumes "registered vo str hash reg self"
    and "obj \<in> set reg"
    and "\<forall>other \<in> set reg. other \<noteq> obj \<longrightarrow> hash (str other) \<noteq> hash (str obj)"
  shows "from_node vo hash (snd (to_node str self obj)) (fst (to_node str self obj)) = (Inr obj, self)"
proof -
  from assms(2) obtain xs zs where reg: "reg = xs @ obj # zs" and last: "obj \<notin> set zs"
    by (auto dest: split_list_last)
  have "\<forall>z \<in> set zs. hash (str z) \<noteq> hash (str obj)"
    using assms(3) reg last by auto
  then have "map_of (dict_comp str hash reg) (hash (str obj)) = Some obj"
    unfolding reg by (rule dict_comp_last_wins)
  moreover have "objs self = dict_comp str hash reg"
    using assms(1) by (rule registered_objs)
  moreover have "vo obj = None"
    using assms(1,2) by (rule registered_valid)
  ultimately show ?thesis
    by (simp add: from_node_def base_from_node_def from_node'_def to_node_def TextNode_def
        get_content_NONE_def)
qed

theorem from_node_to_node_roundtrip_witness:
  "from_node validate_object py_hash
     (snd (to_node py_str \<lparr>objs = [(8898527, PyNone), (299566379, PyStr ''hello''), (9080373, PyBool True)]\<rparr> (PyStr ''hello'')))
     (fst (to_node py_str \<lparr>objs = [(8898527, PyNone), (299566379, PyStr ''hello''), (9080373, PyBool True)]\<rparr> (PyStr ''hello'')))
   = (Inr (PyStr ''hello''), \<lparr>objs = [(8898527, PyNone), (299566379, PyStr ''hello''), (9080373, PyBool True)]\<rparr>)"
proof -
  have built: "registered validate_object py_str py_hash [PyNone, PyStr ''hello'']
      \<lparr>objs = [(8898527, PyNone), (299566379, PyStr ''hello'')]\<rparr>"
    using registered.constructed[of validate_object py_str py_hash "Some [PyNone, PyStr ''hello'']"
        "\<lparr>objs = [(8898527, PyNone), (299566379, PyStr ''hello'')]\<rparr>"]
    by (simp add: init_def validate_object_def dict_comp_def py_hash_values)
  have grown: "registered validate_object py_str py_hash ([PyNone, PyStr ''hello''] @ [PyBool True])
      \<lparr>objs = [(8898527, PyNone), (299566379, PyStr ''hello''), (9080373, PyBool True)]\<rparr>"
    by (rule registered.added[OF built])
      (simp add: add_object_def base_add_object_def add_object'_def validate_object_def py_hash_values)
  show ?thesis
    using from_node_to_node_roundtrip[OF grown, of "PyStr ''hello''"]
    by (simp add: py_hash_values)
qed

subsection \<open>Last write wins\<close>

text \<open>
  C3. Let \<open>a\<close> and \<open>b\<close> be distinct objects with one string form, both accepted by the
  validation hook. When the constructor is given a sequence in which \<open>b\<close> comes after \<open>a\<close>
  (and nothing after \<open>b\<close> has its key), it returns a mapping without raising, and the
  nodes of \<open>a\<close> and of \<open>b\<close> are both resolved to \<open>b\<close>. When \<open>a\<close> and then \<open>b\<close> are added by
  two calls of \<open>add_object\<close> to any mapping, neither call raises, and afterwards the nodes
  of \<open>a\<close> and of \<open>b\<close> are both resolved to \<open>b\<close>. In neither case is \<open>a\<close> returned.
\<close>

theorem last_write_wins:
  assumes same: "str a = str b" and differ: "a \<noteq> b"
    and valid: "validate_each vo (xs @ a # ys @ b # zs) = None"
    and later: "\<forall>z \<in> set zs. hash (str z) \<noteq> hash (str b)"
  shows "(\<exists>built. init vo str hash (Some (xs @ a # ys @ b # zs)) = Inr built \<and>
            from_node vo hash built (fst (to_node str built a)) = (Inr b, built) \<and>
            from_node vo hash built (fst (to_node str built b)) = (Inr b, built)) \<and>
         (\<exists>s1 s2. add_object vo str hash self a = (Inr (), s1) \<and>
            add_object vo str hash s1 b = (Inr (), s2) \<and>
            from_node vo hash s2 (fst (to_node str s2 a)) = (Inr b, s2) \<and>
            from_node vo hash s2 (fst (to_node str s2 b)) = (Inr b, s2)) \<and>
         (Inr b :: exn + 'a) \<noteq> Inr a"
proof (intro conjI)
  let ?os = "xs @ a # ys @ b # zs"
  let ?built = "\<lparr>objs = dict_comp str hash ?os\<rparr>"
  have va: "vo a = None" and vb: "vo b = None"
    using valid by (simp_all add: validate_each_None)
  have "map_of (dict_comp str hash ((xs @ a # ys) @ b # zs)) (hash (str b)) = Some b"
    using later by (rule dict_comp_last_wins)
  then have hit: "map_of (objs ?built) (hash (str b)) = Some b" by simp
  have "init vo str hash (Some ?os) = Inr ?built"
    using valid by (simp add: init_def)
  moreover have "from_node vo hash ?built (fst (to_node str ?built a)) = (Inr b, ?built)"
    using hit vb same by (intro from_node_hit) simp_all
  moreover have "from_node vo hash ?built (fst (to_node str ?built b)) = (Inr b, ?built)"
    using hit vb by (intro from_node_hit) simp_all
  ultimately show "\<exists>built. init vo str hash (Some ?os) = Inr built \<and>
            from_node vo hash built (fst (to_node str built a)) = (Inr b, built) \<and>
            from_node vo hash built (fst (to_node str built b)) = (Inr b, built)"
    by blast
  let ?s1 = "self\<lparr>objs := AList.update (hash (str a)) a (objs self)\<rparr>"
  let ?s2 = "?s1\<lparr>objs := AList.update (hash (str b)) b (objs ?s1)\<rparr>"
  have a1: "add_object vo str hash self a = (Inr (), ?s1)"
    using va by (simp add: add_object_def base_add_object_def add_object'_def)
  have a2: "add_object vo str hash ?s1 b = (Inr (), ?s2)"
    using vb by (simp add: add_object_def base_add_object_def add_object'_def)
  have hit2: "map_of (objs ?s2) (hash (str b)) = Some b"
    by (simp add: update_conv')
  have "from_node vo hash ?s2 (fst (to_node str ?s2 a)) = (Inr b, ?s2)"
    using hit2 vb same by (intro from_node_hit) simp_all
  moreover have "from_node vo hash ?s2 (fst (to_node str ?s2 b)) = (Inr b, ?s2)"
    using hit2 vb by (intro from_node_hit) simp_all
  ultimately show "\<exists>s1 s2. add_object vo str hash self a = (Inr (), s1) \<and>
            add_object vo str hash s1 b = (Inr (), s2) \<and>
            from_node vo hash s2 (fst (to_node str s2 a)) = (Inr b, s2) \<and>
            from_node vo hash s2 (fst (to_node str s2 b)) = (Inr b, s2)"
    using a1 a2 by blast
  show "(Inr b :: exn + 'a) \<noteq> Inr a" using differ by simp
qed

theorem last_write_wins_witness:
  "init validate_object py_str py_hash (Some [PyNone, PyBool True, PyStr ''None''])
     = Inr \<lparr>objs = [(8898527, PyStr ''None''), (9080373, PyBool True)]\<rparr> \<and>
   from_node validate_object py_hash \<lparr>objs = [(8898527, PyStr ''None''), (9080373, PyBool True)]\<rparr>
       (TextNode ''None'')
     = (Inr (PyStr ''None''), \<lparr>objs = [(8898527, PyStr ''None''), (9080373, PyBool True)]\<rparr>) \<and>
   add_object validate_object py_str py_hash
       (snd (add_object validate_object py_str py_hash \<lparr>objs = []\<rparr> PyNone)) (PyStr ''None'')
     = (Inr (), \<lparr>objs = [(8898527, PyStr ''None'')]\<rparr>)"
  using last_write_wins[where a = PyNone and b = "PyStr ''None''" and str = py_str and hash = py_hash
      and vo = validate_object and xs = "[]" and ys = "[PyBool True]" and zs = "[]"
      and self = "\<lparr>objs = []\<rparr>"]
  by (simp add: validate_object_def py_hash_values init_def dict_comp_def to_node_def
      add_object_def base_add_object_def add_object'_def)

subsection \<open>Missing keys\<close>

text \<open>
  C4. When the table has no entry under the hash of a node's content without metadata,
  \<open>from_node\<close> raises \<open>KeyError\<close> with that key, whatever the hook. When the table has an
  entry there, the lookup primitive returns its object, \<open>from_node\<close> of
  \<^verbatim>\<open>SimpleObjectNodeMapping\<close> (whose hook is the inherited one) returns it too, and with
  an overriding hook the only exception \<open>from_node\<close> can raise is the hook's.
\<close>

theorem from_node_missing_key:
  "(map_of (objs self) (hash (get_content_NONE node)) = None \<longrightarrow>
      from_node vo hash self node = (Inl (KeyError (hash (get_content_NONE node))), self)) \<and>
   (map_of (objs self) (hash (get_content_NONE node)) = Some obj \<longrightarrow>
      from_node' hash self node = (Inr obj, self) \<and>
      from_node validate_object hash self node = (Inr obj, self) \<and>
      from_node vo hash self node = (case vo obj of None \<Rightarrow> (Inr obj, self) | Some e \<Rightarrow> (Inl e, self)))"
  by (simp add: from_node_def base_from_node_def from_node'_def validate_object_def Let_def
      split: option.splits)

theorem from_node_missing_key_witness:
  "from_node validate_object py_hash \<lparr>objs = [(8898527, PyNone)]\<rparr> (TextNode ''hello'')
     = (Inl (KeyError 299566379), \<lparr>objs = [(8898527, PyNone)]\<rparr>) \<and>
   from_node validate_object py_hash \<lparr>objs = [(8898527, PyNone)]\<rparr> (TextNode ''None'')
     = (Inr PyNone, \<lparr>objs = [(8898527, PyNone)]\<rparr>)"
  using from_node_missing_key[where self = "\<lparr>objs = [(8898527, PyNone)]\<rparr>" and hash = py_hash
      and node = "TextNode ''hello''" and vo = validate_object]
    from_node_missing_key[where self = "\<lparr>objs = [(8898527, PyNone)]\<rparr>" and hash = py_hash
      and node = "TextNode ''None''" and obj = PyNone and vo = validate_object]
  by (simp add: TextNode_def get_content_NONE_def py_hash_values)

subsection \<open>Determinism of to\_node\<close>

text \<open>
  C8. The node \<open>to_node\<close> makes of an object is the text node of the object's string
  form, whatever the mapping holds; its content without metadata is that string form;
  and a second call on the mapping the first call left gives the same result.
\<close>

theorem to_node_deterministic:
  "fst (to_node str self obj) = TextNode (str obj) \<and>
   get_content_NONE (fst (to_node str self obj)) = str obj \<and>
   to_node str (snd (to_node str self obj)) obj = to_node str self obj"
  by (simp add: to_node_def TextNode_def get_content_NONE_def)

subsection \<open>Lookups and to\_node leave the table alone\<close>

text \<open>
  C10. Neither \<open>to_node\<close> nor \<open>from_node\<close> changes the mapping. In particular \<open>to_node\<close>
  on an object under whose key the table has no entry returns the object's text node
  and does not register it: \<open>from_node\<close> on that node, run on the mapping \<open>to_node\<close> left,
  raises \<open>KeyError\<close>.
\<close>

theorem lookups_leave_table:
  "snd (to_node str self obj) = self \<and>
   snd (from_node vo hash self node) = self \<and>
   fst (to_node str self obj) = TextNode (str obj) \<and>
   (map_of (objs self) (hash (str obj)) = None \<longrightarrow>
      from_node vo hash (snd (to_node str self obj)) (fst (to_node str self obj))
        = (Inl (KeyError (hash (str obj))), self))"
  by (simp add: to_node_def from_node_def base_from_node_def from_node'_def TextNode_def
      get_content_NONE_def Let_def split: option.splits)

theorem lookups_leave_table_witness:
  "snd (to_node py_str \<lparr>objs = [(8898527, PyNone)]\<rparr> (PyStr ''hello'')) = \<lparr>objs = [(8898527, PyNone)]\<rparr> \<and>
   fst (to_node py_str \<lparr>objs = [(8898527, PyNone)]\<rparr> (PyStr ''hello'')) = TextNode ''hello'' \<and>
   from_node validate_object py_hash
       (snd (to_node py_str \<lparr>objs = [(8898527, PyNone)]\<rparr> (PyStr ''hello'')))
       (fst (to_node py_str \<lparr>objs = [(8898527, PyNone)]\<rparr> (PyStr ''hello'')))
     = (Inl (KeyError 299566379), \<lparr>objs = [(8898527, PyNone)]\<rparr>)"
  using lookups_leave_table[where str = py_str and self = "\<lparr>objs = [(8898527, PyNone)]\<rparr>"
      and obj = "PyStr ''hello''" and vo = validate_object and hash = py_hash
      and node = "TextNode ''hello''"]
  by (simp add: py_hash_values to_node_def)

subsection \<open>Persistence round trip\<close>




subsection \<open>Failures of persist\<close>

text \<open>
  C5. The claim asks \<open>persist\<close> to raise \<^verbatim>\<open>ValueError\<close> with the cause attached whenever
  the table holds an object the format cannot encode. The code does so for a lambda,
  for which \<^verbatim>\<open>pickle.dump\<close> raises \<^verbatim>\<open>PicklingError\<close>. For an open file \<^verbatim>\<open>pickle.dump\<close> raises
  \<^verbatim>\<open>TypeError\<close>, which the handler \<^verbatim>\<open>except pickle.PickleError\<close> does not catch, and \<open>persist\<close>
  raises that \<^verbatim>\<open>TypeError\<close> with nothing attached.
\<close>

theorem persist_open_file_not_wrapped:
  "init validate_object py_str py_hash (Some [PyFile ''data.bin''])
     = Inr \<lparr>objs = [(1705182791579579675, PyFile ''data.bin'')]\<rparr> \<and>
   fst (persist mem_os py_pickle_dump \<lparr>objs = [(1705182791579579675, PyFile ''data.bin'')]\<rparr>
          Map.empty ''./storage'' DEFAULT_PERSIST_FNAME)
     = Inl (TypeError ''cannot pickle _io.BufferedReader object'') \<and>
   fst (persist mem_os py_pickle_dump \<lparr>objs = [(1339672815142492353, PyLambda)]\<rparr>
          Map.empty ''./storage'' DEFAULT_PERSIST_FNAME)
     = Inl (ValueError ''Objs is not pickleable''
         (Some (PicklingError ''Cannot pickle <function <lambda>>: attribute lookup failed'')))"
  by (simp add: init_def validate_object_def dict_comp_def py_hash_def
      persist_def py_pickle_dump_def except_PickleError_def mem_os_simps)

subsection \<open>Failures of from\_persist\_dir\<close>

text \<open>
  C6, as the code has it. When the file cannot be opened for reading (absent, a
  directory, or not permitted), \<open>from_persist_dir\<close> raises the \<^verbatim>\<open>OSError\<close> that \<^verbatim>\<open>open\<close>
  raised. When the file is read and \<^verbatim>\<open>pickle.load\<close> raises a \<^verbatim>\<open>pickle.PickleError\<close>,
  \<open>from_persist_dir\<close> raises \<^verbatim>\<open>ValueError("Objs cannot be loaded.")\<close> with that exception
  attached as its cause.
\<close>

theorem from_persist_dir_failure:
  "(open_rb os w (concat_dirs persist_dir fname) = Inl err \<and> isinstance_OSError err \<longrightarrow>
      from_persist_dir os vo str hash pickle_load w persist_dir fname = Inl err) \<and>
   (open_rb os w (concat_dirs persist_dir fname) = Inr content \<and>
    pickle_load content = Inl perr \<and> isinstance_PickleError perr \<longrightarrow>
      from_persist_dir os vo str hash pickle_load w persist_dir fname
        = Inl (ValueError ''Objs cannot be loaded.'' (Some perr)))"
  by (auto simp: from_persist_dir_def Let_def except_PickleError_def dest: OSError_not_PickleError)

theorem from_persist_dir_failure_witness:
  "from_persist_dir mem_os validate_object py_str py_hash py_pickle_load
      (Map.empty([''storage''] \<mapsto> Dir)) ''./storage'' DEFAULT_PERSIST_FNAME
     = Inl (FileNotFoundError ''./storage/object_node_mapping.pickle'') \<and>
   from_persist_dir mem_os validate_object py_str py_hash corrupt_load
      (Map.empty([''storage''] \<mapsto> Dir, [''storage'', ''object_node_mapping.pickle''] \<mapsto> File True []))
      ''./storage'' DEFAULT_PERSIST_FNAME
     = Inl (ValueError ''Objs cannot be loaded.'' (Some (UnpicklingError ''invalid load key'')))"
  using from_persist_dir_failure[where os = mem_os and w = "Map.empty([''storage''] \<mapsto> Dir)"
      and persist_dir = "''./storage''" and fname = DEFAULT_PERSIST_FNAME
      and err = "FileNotFoundError ''./storage/object_node_mapping.pickle''"
      and vo = validate_object and str = py_str and hash = py_hash and pickle_load = py_pickle_load]
    from_persist_dir_failure[where os = mem_os
      and w = "Map.empty([''storage''] \<mapsto> Dir, [''storage'', ''object_node_mapping.pickle''] \<mapsto> File True [])"
      and persist_dir = "''./storage''" and fname = DEFAULT_PERSIST_FNAME and content = "[]"
      and perr = "UnpicklingError ''invalid load key''"
      and vo = validate_object and str = py_str and hash = py_hash and pickle_load = corrupt_load]
  by (simp add: mem_os_simps corrupt_load_def)

text \<open>
  C6 as the spec states it fails for an absent file: \<^verbatim>\<open>open\<close> raises
  \<^verbatim>\<open>FileNotFoundError\<close>, which the handler does not catch, and \<open>from_persist_dir\<close> raises
  that \<^verbatim>\<open>FileNotFoundError\<close>, not a \<^verbatim>\<open>ValueError\<close> with a cause.
\<close>

theorem from_persist_dir_absent_counterexample:
  "open_rb mem_os Map.empty (concat_dirs ''./storage'' DEFAULT_PERSIST_FNAME)
     = Inl (FileNotFoundError ''./storage/object_node_mapping.pickle'') \<and>
   from_persist_dir mem_os validate_object py_str py_hash py_pickle_load
      Map.empty ''./storage'' DEFAULT_PERSIST_FNAME
     = Inl (FileNotFoundError ''./storage/object_node_mapping.pickle'') \<and>
   from_persist_dir mem_os validate_object py_str py_hash py_pickle_load
      Map.empty ''./storage'' DEFAULT_PERSIST_FNAME
     \<noteq> Inl (ValueError ''Objs cannot be loaded.''
           (Some (FileNotFoundError ''./storage/object_node_mapping.pickle'')))"
  by (simp add: from_persist_dir_def except_PickleError_def mem_os_simps)

end
